theory Spec2Isabelle
  imports Complex_Main "HOL-Library.AList"
begin

section \<open>Data model\<close>

text \<open>
  The Cloud Functions of the bar-tab application work on two Firestore collections,
  \<open>accounts\<close> and \<open>transactions\<close>. A collection is an association list from the
  document's key to the document. A JavaScript \<open>number\<close> is read as a real number:
  the rounding of IEEE doubles, \<open>NaN\<close> and the infinities are outside this
  development. Timestamps (\<open>Date.now()\<close>) are integers.
\<close>

type_synonym number = real

record slack_profile =
  slack_id :: string
  slack_name :: string
  username :: string
  pictureUrl :: string

record account_activity =
  totalPurchased :: number
  totalPaid :: number
  lastPurchaseTimestamp :: int
  lastPaymentTimestamp :: int

record account =
  slack :: slack_profile
  activity :: account_activity
  isEmployee :: bool

text \<open>The document \<open>addPayment\<close> writes: \<open>{id, type, account, amount, timestamp}\<close>.\<close>

record transaction_doc =
  txn_id :: string
  txn_type :: string
  txn_account :: string
  txn_amount :: number
  txn_timestamp :: int

record firestore =
  accounts :: "(string \<times> account) list"
  transactions :: "(string \<times> transaction_doc) list"

text \<open>
  A thrown value: an \<open>Error\<close> with its message, or anything else
  (\<open>error instanceof Error\<close> is false).
\<close>

datatype thrown = Error string | NonError

text \<open>JavaScript truthiness of an optional string: \<open>undefined\<close> and \<open>''\<close> are falsy.\<close>

definition truthy :: "string option \<Rightarrow> bool" where
  "truthy s = (case s of None \<Rightarrow> False | Some v \<Rightarrow> v \<noteq> [])"

section \<open>The Firestore primitives the functions call\<close>

text \<open>
  \<open>collection(c).doc(documentPath)\<close> of the server SDK. The path must be a non-empty
  string without \<open>//\<close>. It is split at \<open>/\<close> and its empty segments are dropped, so
  a leading or trailing slash is allowed; the segments are appended to the collection's
  one segment, and the result must point to a document, that is, the path must have
  an odd number of segments. \<open>doc\<close> returns the segments below the collection: one
  segment for a document of the collection itself, three or more for a document of a
  subcollection. The messages are the SDK's, without the quotation marks around the
  argument's name and value; nothing below depends on their wording.
\<close>

fun splitPath :: "string \<Rightarrow> string list" where
  "splitPath [] = [[]]"
| "splitPath (c # cs) =
     (if c = CHR ''/'' then [] # splitPath cs
      else (case splitPath cs of
              [] \<Rightarrow> [[c]]
            | segment # rest \<Rightarrow> (c # segment) # rest))"

fun hasDoubleSlash :: "string \<Rightarrow> bool" where
  "hasDoubleSlash (c # d # cs) = ((c = CHR ''/'' \<and> d = CHR ''/'') \<or> hasDoubleSlash (d # cs))"
| "hasDoubleSlash cs = False"

definition EMPTY_PATH :: thrown where
  "EMPTY_PATH =
     Error (''Value for argument documentPath is not a valid resource path. '' @
            ''Path must be a non-empty string.'')"

definition DOUBLE_SLASH :: thrown where
  "DOUBLE_SLASH =
     Error (''Value for argument documentPath is not a valid resource path. '' @
            ''Paths must not contain //.'')"

definition NOT_A_DOCUMENT :: "string \<Rightarrow> thrown" where
  "NOT_A_DOCUMENT documentPath =
     Error (''Value for argument documentPath must point to a document, but was '' @
            documentPath @
            ''. Your path does not contain an even number of components.'')"

definition doc :: "string \<Rightarrow> thrown + string list" where
  "doc documentPath =
     (if documentPath = [] then Inl EMPTY_PATH
      else if hasDoubleSlash documentPath then Inl DOUBLE_SLASH
      else (let segments = filter (\<lambda>segment. segment \<noteq> []) (splitPath documentPath)
            in if even (length segments) then Inl (NOT_A_DOCUMENT documentPath)
               else Inr segments))"

text \<open>
  A document id is a path of one segment: a non-empty string without \<open>/\<close>. (The
  server also reserves the names \<open>.\<close>, \<open>..\<close> and \<open>__x__\<close> and limits their length; it
  is taken to accept every segment here.)
\<close>

definition isDocumentId :: "string \<Rightarrow> bool" where
  "isDocumentId s \<longleftrightarrow> s \<noteq> [] \<and> CHR ''/'' \<notin> set s"

text \<open>
  \<open>ref.id\<close> is the last segment of a reference, \<open>ref.path\<close> joins the segments with
  \<open>/\<close>. The documents below \<open>transactions\<close> are keyed by their path below the
  collection: for a document of the collection itself that is its id.
\<close>

fun joinPath :: "string list \<Rightarrow> string" where
  "joinPath [] = []"
| "joinPath [segment] = segment"
| "joinPath (segment # next # rest) = segment @ CHR ''/'' # joinPath (next # rest)"

definition refId :: "string list \<Rightarrow> string" where
  "refId ref = (case ref of [] \<Rightarrow> [] | _ # _ \<Rightarrow> last ref)"

definition transactionAt :: "firestore \<Rightarrow> string list \<Rightarrow> transaction_doc option" where
  "transactionAt fs ref = map_of (transactions fs) (joinPath ref)"

text \<open>
  \<open>accounts\<close> holds the documents of the collection itself, keyed by document id. The
  application keeps no subcollection below an account and nothing in it creates one:
  a reference into such a subcollection names no document.
\<close>

definition accountAt :: "firestore \<Rightarrow> string list \<Rightarrow> account option" where
  "accountAt fs ref =
     (case ref of
        [documentId] \<Rightarrow> map_of (accounts fs) documentId
      | _ \<Rightarrow> None)"

text \<open>
  A transaction reads its documents, queues its writes and commits them as one unit:
  \<open>set\<close> creates or overwrites, \<open>update\<close> asks for the document to exist and fails
  the whole commit otherwise. \<open>UpdateAccountPaid ref amount timestamp\<close> is
  \<open>update(ref, {'activity.totalPaid': FieldValue.increment(amount),
  'activity.lastPaymentTimestamp': timestamp})\<close>. The store is taken to be reachable:
  a read returns the document or its absence. The message of the failed update is
  abbreviated.
\<close>

definition NOT_FOUND :: thrown where
  "NOT_FOUND = Error ''NOT_FOUND: No document to update''"

datatype write_op =
    SetTransaction "string list" transaction_doc
  | UpdateAccountPaid "string list" number int

definition incrementPaid :: "number \<Rightarrow> int \<Rightarrow> account \<Rightarrow> account" where
  "incrementPaid amount timestamp a =
     a\<lparr>activity := (activity a)\<lparr>totalPaid := totalPaid (activity a) + amount,
                                   lastPaymentTimestamp := timestamp\<rparr>\<rparr>"

fun apply_write :: "write_op \<Rightarrow> firestore \<Rightarrow> thrown + firestore" where
  "apply_write (SetTransaction ref data) fs =
     Inr (fs\<lparr>transactions := AList.update (joinPath ref) data (transactions fs)\<rparr>)"
| "apply_write (UpdateAccountPaid ref amount timestamp) fs =
     (case accountAt fs ref of
        None \<Rightarrow> Inl NOT_FOUND
      | Some a \<Rightarrow>
          Inr (fs\<lparr>accounts :=
                  AList.map_entry (refId ref) (incrementPaid amount timestamp) (accounts fs)\<rparr>))"

fun commit :: "write_op list \<Rightarrow> firestore \<Rightarrow> thrown + firestore" where
  "commit [] fs = Inr fs"
| "commit (w # ws) fs =
     (case apply_write w fs of Inl e \<Rightarrow> Inl e | Inr fs' \<Rightarrow> commit ws fs')"

text \<open>
  \<open>runTransaction\<close> with no other client at work: it runs its update function on the
  store and commits the writes; an exception of the function or a failed commit
  leaves the store as it was.
\<close>

definition runTransaction ::
  "(firestore \<Rightarrow> thrown + write_op list) \<Rightarrow> firestore \<Rightarrow> (thrown + unit) \<times> firestore" where
  "runTransaction updateFunction fs =
     (case updateFunction fs of
        Inl e \<Rightarrow> (Inl e, fs)
      | Inr writes \<Rightarrow>
          (case commit writes fs of
             Inl e \<Rightarrow> (Inl e, fs)
           | Inr fs' \<Rightarrow> (Inr (), fs')))"

text \<open>
  \<open>runTransaction\<close> with other clients at work, one request to the server at a time.
  An attempt runs the update function, whose read of the transaction document
  \<open>readRef\<close> is remembered with the writes it queued; an exception of the function
  settles the call. The commit is refused when the document read has changed since:
  the SDK then starts the next attempt, and gives up after \<open>maxAttempts\<close> attempts.
  Otherwise the writes are applied as one unit. This is the service's contract for a
  transaction, serializable isolation, seen from the client: a server that makes a
  writer wait for the readers of a document, and aborts one of two that wait for
  each other, lets the same attempts commit.
\<close>

datatype txn_state =
    Begin nat
  | Body_done nat "transaction_doc option" "write_op list"
  | Settled "thrown + unit"

definition maxAttempts :: nat where
  "maxAttempts = 5"

definition ABORTED :: thrown where
  "ABORTED = Error ''ABORTED: Too much contention on these documents. Please try again.''"

definition txn_step ::
  "string list \<Rightarrow> (firestore \<Rightarrow> thrown + write_op list) \<Rightarrow> txn_state \<Rightarrow> firestore
     \<Rightarrow> txn_state \<times> firestore" where
  "txn_step readRef updateFunction st fs =
     (case st of
        Begin n \<Rightarrow>
          (case updateFunction fs of
             Inl e \<Rightarrow> (Settled (Inl e), fs)
           | Inr writes \<Rightarrow> (Body_done n (transactionAt fs readRef) writes, fs))
      | Body_done n seen writes \<Rightarrow>
          if transactionAt fs readRef \<noteq> seen
          then (if Suc n < maxAttempts then Begin (Suc n) else Settled (Inl ABORTED), fs)
          else (case commit writes fs of
                  Inl e \<Rightarrow> (Settled (Inl e), fs)
                | Inr fs' \<Rightarrow> (Settled (Inr ()), fs'))
      | Settled r \<Rightarrow> (Settled r, fs))"

section \<open>Payment ledger: \<open>addPayment\<close> (shared/transactionService.ts)\<close>

text \<open>
  \<open>transactionId ? collection('transactions').doc(transactionId)
                 : collection('transactions').doc()\<close>:
  a missing or empty \<open>transactionId\<close> takes the generated id \<open>autoId\<close>, any other goes
  through \<open>doc\<close>.
\<close>

definition transactionRef :: "string option \<Rightarrow> string \<Rightarrow> thrown + string list" where
  "transactionRef transactionId autoId =
     (case transactionId of
        None \<Rightarrow> Inr [autoId]
      | Some t \<Rightarrow> if t = [] then Inr [autoId] else doc t)"

text \<open>
  The function handed to \<open>runTransaction\<close>: the read, the throw, the two writes. The
  document written is \<open>{id: transactionRef.id, type: 'payment', account: accountId,
  amount, timestamp}\<close>.
\<close>

definition addPayment_body ::
  "string list \<Rightarrow> string \<Rightarrow> string list \<Rightarrow> number \<Rightarrow> int \<Rightarrow> firestore
     \<Rightarrow> thrown + write_op list" where
  "addPayment_body tref accountId accountRef amount timestamp snapshot =
     (if transactionAt snapshot tref \<noteq> None
      then Inl (Error ''Transaction already exists'')
      else Inr [SetTransaction tref
                  \<lparr>txn_id = refId tref, txn_type = ''payment'', txn_account = accountId,
                   txn_amount = amount, txn_timestamp = timestamp\<rparr>,
                UpdateAccountPaid accountRef amount timestamp])"

text \<open>
  \<open>addPayment firestore accountId amount transactionId\<close>; \<open>autoId\<close> is what \<open>doc()\<close>
  would generate and \<open>timestamp\<close> what \<open>Date.now()\<close> returns. The two references are
  made first, the transaction's before the account's, and a refused path rejects the
  call before the transaction starts. The result is how the promise settles
  (\<open>Inr ()\<close> fulfilled, \<open>Inl e\<close> rejected with \<open>e\<close>) and the store after.
\<close>

definition addPayment ::
  "firestore \<Rightarrow> string \<Rightarrow> number \<Rightarrow> string option \<Rightarrow> string \<Rightarrow> int
     \<Rightarrow> (thrown + unit) \<times> firestore" where
  "addPayment fs accountId amount transactionId autoId timestamp =
     (case transactionRef transactionId autoId of
        Inl e \<Rightarrow> (Inl e, fs)
      | Inr tref \<Rightarrow>
          (case doc accountId of
             Inl e \<Rightarrow> (Inl e, fs)
           | Inr accountRef \<Rightarrow>
               runTransaction (addPayment_body tref accountId accountRef amount timestamp) fs))"

definition DuplicateTransaction :: thrown where
  "DuplicateTransaction = Error ''Transaction already exists''"

text \<open>
  Two invocations at work on the same store. Each is a call with its arguments, the
  id \<open>doc()\<close> would generate for it and the time it reads. \<open>addPayment_start\<close> is the
  call up to \<open>runTransaction\<close>, \<open>addPayment_step\<close> one request of its transaction to the
  server. A schedule says whose request the server handles next (\<open>True\<close> for the first
  invocation); a settled invocation has no request left.
\<close>

record payment_call =
  call_accountId :: string
  call_amount :: number
  call_transactionId :: "string option"
  call_autoId :: string
  call_timestamp :: int

definition addPayment_start :: "payment_call \<Rightarrow> txn_state" where
  "addPayment_start c =
     (case transactionRef (call_transactionId c) (call_autoId c) of
        Inl e \<Rightarrow> Settled (Inl e)
      | Inr tref \<Rightarrow>
          (case doc (call_accountId c) of
             Inl e \<Rightarrow> Settled (Inl e)
           | Inr accountRef \<Rightarrow> Begin 0))"

definition addPayment_step ::
  "payment_call \<Rightarrow> txn_state \<Rightarrow> firestore \<Rightarrow> txn_state \<times> firestore" where
  "addPayment_step c st fs =
     (case transactionRef (call_transactionId c) (call_autoId c) of
        Inl e \<Rightarrow> (st, fs)
      | Inr tref \<Rightarrow>
          (case doc (call_accountId c) of
             Inl e \<Rightarrow> (st, fs)
           | Inr accountRef \<Rightarrow>
               txn_step tref
                 (addPayment_body tref (call_accountId c) accountRef (call_amount c)
                    (call_timestamp c))
                 st fs))"

fun interleave ::
  "bool list \<Rightarrow> payment_call \<Rightarrow> payment_call \<Rightarrow> txn_state \<times> txn_state \<times> firestore
     \<Rightarrow> txn_state \<times> txn_state \<times> firestore" where
  "interleave [] c1 c2 s = s"
| "interleave (first # schedule) c1 c2 (s1, s2, fs) =
     (if first
      then (case addPayment_step c1 s1 fs of
              (s1', fs') \<Rightarrow> interleave schedule c1 c2 (s1', s2, fs'))
      else (case addPayment_step c2 s2 fs of
              (s2', fs') \<Rightarrow> interleave schedule c1 c2 (s1, s2', fs')))"

definition concurrently ::
  "bool list \<Rightarrow> payment_call \<Rightarrow> payment_call \<Rightarrow> firestore
     \<Rightarrow> txn_state \<times> txn_state \<times> firestore" where
  "concurrently schedule c1 c2 fs =
     interleave schedule c1 c2 (addPayment_start c1, addPayment_start c2, fs)"

section \<open>HTTP requests and responses\<close>

text \<open>
  The webhook body \<open>{event_type, id, ...}\<close>: the two fields the handler reads, and
  whatever else the sender put in the body (a claimed status, for one).
\<close>

record webhook_payload =
  event_type :: "string option"
  payload_id :: "string option"
  other_fields :: "(string \<times> string) list"

text \<open>A query parameter is a string, or an array or nested object (\<open>typeof\<close> is not \<open>'string'\<close>).\<close>

datatype query_value = QueryString string | QueryOther

record request =
  http_method :: string
  authorization :: "string option"
  body :: "webhook_payload option"
  query_accountId :: "string option"
  query_slackUserId :: "query_value option"

text \<open>\<open>res.status(code).send(text)\<close>; \<open>send()\<close> without an argument sends the empty body.\<close>

record response =
  statusCode :: nat
  sent :: string

definition send :: "nat \<Rightarrow> string \<Rightarrow> response" where
  "send code msg = \<lparr>statusCode = code, sent = msg\<rparr>"

section \<open>Webhook handler: \<open>validatePayment\<close> (validatePayment.ts)\<close>

text \<open>What \<open>getCheckoutDetails\<close> of shared/sumupService.js resolves to.\<close>

record checkout =
  checkout_id :: string
  status :: string
  amount :: number
  currency :: string
  checkout_reference :: string
  description :: string

text \<open>
  What the handler takes from outside the store: the Checkout Gateway
  (\<open>getCheckoutDetails\<close>, which resolves to a checkout or throws), the built-in
  \<open>decodeURIComponent\<close> (which throws on a malformed escape), and for the ledger the
  clock and the id generator.
\<close>

record webhook_env =
  getCheckoutDetails :: "string \<Rightarrow> thrown + checkout"
  decodeURIComponent :: "string \<Rightarrow> thrown + string"
  Date_now :: int
  autoId :: string

text \<open>
  The calls the handler makes, in the order it makes them, each with the arguments it
  is given (the path handed to \<open>doc\<close>, for the two reads).
\<close>

datatype effect =
    GetCheckoutDetails string
  | GetAccount string
  | GetTransaction string
  | AddPayment string number string

text \<open>
  The \<open>catch\<close> block: \<open>500\<close> with the message of an \<open>Error\<close>, a bare \<open>500\<close> otherwise.
\<close>

definition caught :: "thrown \<Rightarrow> response" where
  "caught error =
     (case error of
        Error message \<Rightarrow> send 500 (''Internal Server Error: '' @ message)
      | NonError \<Rightarrow> send 500 ''Internal Server Error'')"

text \<open>
  The handler up to the call of \<open>addPayment\<close>: it answers, or it goes on to record the
  verified checkout for the account.
\<close>

datatype verdict = Respond response | Record string checkout

definition validatePayment_verify ::
  "webhook_env \<Rightarrow> request \<Rightarrow> firestore \<Rightarrow> verdict \<times> effect list" where
  "validatePayment_verify env req fs =
     (if http_method req \<noteq> ''POST'' then (Respond (send 405 ''Method Not Allowed''), [])
      else (case body req of
        None \<Rightarrow> (Respond (send 400 ''Bad Request - Invalid webhook payload''), [])
      | Some webhookPayload \<Rightarrow>
        if event_type webhookPayload \<noteq> Some ''CHECKOUT_STATUS_CHANGED''
        then (Respond (send 400 ''Bad Request - Invalid webhook payload''), [])
        else (case payload_id webhookPayload of
          None \<Rightarrow> (Respond (send 400 ''Bad Request - Missing checkout ID''), [])
        | Some checkoutId \<Rightarrow>
          if checkoutId = []
          then (Respond (send 400 ''Bad Request - Missing checkout ID''), [])
          else (case query_accountId req of
            None \<Rightarrow> (Respond (send 400 ''Bad Request - Missing account ID''), [])
          | Some accountIdEncoded \<Rightarrow>
            if accountIdEncoded = []
            then (Respond (send 400 ''Bad Request - Missing account ID''), [])
            else (case decodeURIComponent env accountIdEncoded of
              Inl e \<Rightarrow> (Respond (caught e), [])
            | Inr accountId \<Rightarrow>
              (case getCheckoutDetails env checkoutId of
                Inl e \<Rightarrow> (Respond (caught e), [GetCheckoutDetails checkoutId])
              | Inr checkout \<Rightarrow>
                if status checkout \<noteq> ''PAID''
                then (Respond (send 200 []), [GetCheckoutDetails checkoutId])
                else (case doc accountId of
                  Inl e \<Rightarrow> (Respond (caught e), [GetCheckoutDetails checkoutId])
                | Inr accountRef \<Rightarrow>
                  if accountAt fs accountRef = None
                  then (Respond (send 404 ''Account not found''),
                        [GetCheckoutDetails checkoutId, GetAccount accountId])
                  else (case doc (checkout_reference checkout) of
                    Inl e \<Rightarrow>
                      (Respond (caught e),
                       [GetCheckoutDetails checkoutId, GetAccount accountId])
                  | Inr tref \<Rightarrow>
                    if transactionAt fs tref \<noteq> None
                    then (Respond (send 200 []),
                          [GetCheckoutDetails checkoutId, GetAccount accountId,
                           GetTransaction (checkout_reference checkout)])
                    else (Record accountId checkout,
                          [GetCheckoutDetails checkoutId, GetAccount accountId,
                           GetTransaction (checkout_reference checkout)])))))))))"

text \<open>
  The rest of the \<open>try\<close> block:
  \<open>await addPayment(firestore, accountId, checkout.amount, transactionId)\<close>, then the
  \<open>200\<close>; an exception of \<open>addPayment\<close> lands in the \<open>catch\<close> block.
\<close>

definition validatePayment_record ::
  "webhook_env \<Rightarrow> string \<Rightarrow> checkout \<Rightarrow> firestore \<Rightarrow> response \<times> firestore" where
  "validatePayment_record env accountId checkout fs =
     (case addPayment fs accountId (amount checkout) (Some (checkout_reference checkout))
             (autoId env) (Date_now env) of
        (Inl e, fs') \<Rightarrow> (caught e, fs')
      | (Inr u, fs') \<Rightarrow> (send 200 [], fs'))"

definition finish :: "webhook_env \<Rightarrow> verdict \<Rightarrow> firestore \<Rightarrow> response \<times> firestore" where
  "finish env v fs =
     (case v of
        Respond r \<Rightarrow> (r, fs)
      | Record accountId checkout \<Rightarrow> validatePayment_record env accountId checkout fs)"

definition recorded :: "verdict \<Rightarrow> effect list" where
  "recorded v =
     (case v of
        Respond r \<Rightarrow> []
      | Record accountId checkout \<Rightarrow>
          [AddPayment accountId (amount checkout) (checkout_reference checkout)])"

text \<open>One delivery handled with no other writer in between: response, store, calls made.\<close>

definition validatePayment ::
  "webhook_env \<Rightarrow> request \<Rightarrow> firestore \<Rightarrow> response \<times> firestore \<times> effect list" where
  "validatePayment env req fs =
     (case validatePayment_verify env req fs of
        (v, calls) \<Rightarrow> (case finish env v fs of (r, fs') \<Rightarrow> (r, fs', calls @ recorded v)))"

text \<open>
  Two deliveries handled at once by two function instances: each \<open>await\<close> is one step
  on the shared store, and here both instances finish their reads before either calls
  \<open>addPayment\<close>; the first instance's transaction commits first.
\<close>

definition validatePayment_interleaved ::
  "webhook_env \<Rightarrow> request \<Rightarrow> webhook_env \<Rightarrow> request \<Rightarrow> firestore
     \<Rightarrow> response \<times> response \<times> firestore" where
  "validatePayment_interleaved env1 req1 env2 req2 fs =
     (case validatePayment_verify env1 req1 fs of
        (v1, calls1) \<Rightarrow>
          (case validatePayment_verify env2 req2 fs of
             (v2, calls2) \<Rightarrow>
               (case finish env1 v1 fs of
                  (r1, fs1) \<Rightarrow> (case finish env2 v2 fs1 of (r2, fs2) \<Rightarrow> (r1, r2, fs2)))))"

section \<open>Balance lookup: \<open>getPaymentLinkForSlackUser\<close> (getPaymentLinkForSlackUser.ts)\<close>

text \<open>The argument and the result of \<open>createCheckout\<close> of shared/sumupService.js.\<close>

record checkout_params =
  params_amount :: number
  params_currency :: string
  checkoutReference :: string
  params_description :: string
  merchantCode :: string
  returnUrl :: string

record checkout_session =
  checkoutId :: string
  checkoutUrl :: string

text \<open>
  The process environment (\<open>process.env\<close>), \<open>randomUUID()\<close>, the built-in
  \<open>encodeURIComponent\<close> and the Checkout Gateway's \<open>createCheckout\<close>, which resolves
  to a session or throws.
\<close>

record link_env =
  CHAQUIP_API_KEY :: "string option"
  SUMUP_MERCHANT_CODE :: "string option"
  SUMUP_WEBHOOK_URL :: "string option"
  GCLOUD_PROJECT :: "string option"
  randomUUID :: string
  encodeURIComponent :: "string \<Rightarrow> string"
  createCheckout :: "checkout_params \<Rightarrow> thrown + checkout_session"

text \<open>
  The JSON bodies the endpoint sends: \<open>{error}\<close>, \<open>{error, details}\<close>, \<open>{balance}\<close>
  and \<open>{balance, paymentLink}\<close>.
\<close>

datatype json_body =
    ErrorJson string
  | ErrorDetailsJson string string
  | BalanceJson number
  | BalanceLinkJson number string

record json_response =
  json_status :: nat
  json :: json_body

definition reply :: "nat \<Rightarrow> json_body \<Rightarrow> json_response" where
  "reply code b = \<lparr>json_status = code, json = b\<rparr>"

text \<open>
  \<open>process.env.SUMUP_WEBHOOK_URL ??
  `https://us-central1-${process.env.GCLOUD_PROJECT ?? 'unknown-project'}.cloudfunctions.net/handleSumUpWebhook`\<close>
\<close>

definition functionUrl :: "link_env \<Rightarrow> string" where
  "functionUrl env =
     (case SUMUP_WEBHOOK_URL env of
        Some url \<Rightarrow> url
      | None \<Rightarrow>
          ''https://us-central1-'' @
          (case GCLOUD_PROJECT env of Some project \<Rightarrow> project | None \<Rightarrow> ''unknown-project'') @
          ''.cloudfunctions.net/handleSumUpWebhook'')"

text \<open>The \<open>catch\<close> block of the endpoint.\<close>

definition internal_error :: "thrown \<Rightarrow> json_response" where
  "internal_error error =
     reply 500
       (ErrorDetailsJson ''Internal server error''
          (case error of Error message \<Rightarrow> message | NonError \<Rightarrow> ''Unknown error''))"

text \<open>
  The endpoint: the response, and the checkouts it asked the gateway to create. The
  query \<open>where('slack.id', '==', slackUserId).limit(1)\<close> is the first matching
  account document.
\<close>

definition getPaymentLinkForSlackUser ::
  "link_env \<Rightarrow> request \<Rightarrow> firestore \<Rightarrow> json_response \<times> checkout_params list" where
  "getPaymentLinkForSlackUser env req fs =
     (if http_method req \<noteq> ''GET'' then (reply 405 (ErrorJson ''Method not allowed''), [])
      else (case CHAQUIP_API_KEY env of
        None \<Rightarrow> (reply 500 (ErrorJson ''Internal server error''), [])
      | Some apiKey \<Rightarrow>
        if apiKey = [] then (reply 500 (ErrorJson ''Internal server error''), [])
        else (case authorization req of
          None \<Rightarrow> (reply 401 (ErrorJson ''Unauthorized''), [])
        | Some authHeader \<Rightarrow>
          if take 7 authHeader \<noteq> ''Bearer ''
          then (reply 401 (ErrorJson ''Unauthorized''), [])
          else if drop 7 authHeader \<noteq> apiKey
          then (reply 401 (ErrorJson ''Unauthorized''), [])
          else (case query_slackUserId req of
            None \<Rightarrow> (reply 400 (ErrorJson ''Missing or invalid slackUserId parameter''), [])
          | Some QueryOther \<Rightarrow>
              (reply 400 (ErrorJson ''Missing or invalid slackUserId parameter''), [])
          | Some (QueryString slackUserId) \<Rightarrow>
            if slackUserId = []
            then (reply 400 (ErrorJson ''Missing or invalid slackUserId parameter''), [])
            else (case find (\<lambda>d. slack_id (slack (snd d)) = slackUserId) (accounts fs) of
              None \<Rightarrow> (reply 404 (ErrorJson ''No account found with that Slack user ID''), [])
            | Some accountDoc \<Rightarrow>
              (let account = snd accountDoc;
                   accountId = fst accountDoc;
                   balance = totalPaid (activity account) - totalPurchased (activity account)
               in if balance \<ge> 0 then (reply 200 (BalanceJson balance), [])
                  else (case SUMUP_MERCHANT_CODE env of
                    None \<Rightarrow> (reply 500 (ErrorJson ''Internal server error''), [])
                  | Some sumupMerchantCode \<Rightarrow>
                    if sumupMerchantCode = []
                    then (reply 500 (ErrorJson ''Internal server error''), [])
                    else (let params =
                               \<lparr>params_amount = \<bar>balance\<bar>,
                                params_currency = ''EUR'',
                                checkoutReference = randomUUID env,
                                params_description =
                                  ''Chaquip payment for '' @ slack_name (slack account),
                                merchantCode = sumupMerchantCode,
                                returnUrl =
                                  functionUrl env @ ''?accountId='' @
                                  encodeURIComponent env accountId\<rparr>
                          in case createCheckout env params of
                               Inl e \<Rightarrow> (internal_error e, [params])
                             | Inr session \<Rightarrow>
                                 (reply 200 (BalanceLinkJson balance (checkoutUrl session)),
                                  [params])))))))))"

section \<open>Roster reconciler: the delete set\<close>

text \<open>A member of the external directory, as the test of the reconciler feeds it.\<close>

record member =
  member_id :: string
  member_name :: string
  is_bot :: bool
  deleted :: bool
  email :: "string option"
  image_192 :: string

text \<open>
  Modelled from the spec: the reconciler itself (shared/updateUsersLogic.ts) is not
  among the sources, only its test is. Section 4.2, step 2 filters out bots; step 4:
  an account has a corresponding live member when a human member that is not
  deleted carries the account's directory identifier.
\<close>

definition liveMember :: "member list \<Rightarrow> account \<Rightarrow> bool" where
  "liveMember directory a =
     list_ex (\<lambda>m. \<not> is_bot m \<and> \<not> deleted m \<and> member_id m = slack_id (slack a)) directory"

text \<open>
  Modelled from the spec: the reconciler's source is missing. Section 4.2, step 4: the
  recorded reason tells "removed from directory" from "marked deleted in directory".
\<close>

datatype delete_reason = RemovedFromDirectory | MarkedDeletedInDirectory

text \<open>
  Modelled from the spec: the reconciler's source is missing. The reason is "marked
  deleted" when a human member with the account's directory identifier is in the
  directory, deleted; otherwise the member is not in the directory.
\<close>

definition deleteReason :: "member list \<Rightarrow> account \<Rightarrow> delete_reason" where
  "deleteReason directory a =
     (if list_ex (\<lambda>m. \<not> is_bot m \<and> deleted m \<and> member_id m = slack_id (slack a)) directory
      then MarkedDeletedInDirectory else RemovedFromDirectory)"

text \<open>
  Modelled from the spec: the reconciler's source is missing. Section 4.2, step 4,
  Delete: the account exists with no corresponding live, non-deleted directory member
  and \<open>totalPurchased == 0\<close>.
\<close>

definition deleteSet ::
  "member list \<Rightarrow> (string \<times> account) list \<Rightarrow> (string \<times> account \<times> delete_reason) list" where
  "deleteSet directory stored =
     map (\<lambda>d. (fst d, snd d, deleteReason directory (snd d)))
       (filter (\<lambda>d. \<not> liveMember directory (snd d) \<and> totalPurchased (activity (snd d)) = 0)
          stored)"

section \<open>Example data\<close>

text \<open>The account of the tests: it has bought for 100 and paid 40.\<close>

definition member_account :: "string \<Rightarrow> number \<Rightarrow> number \<Rightarrow> account" where
  "member_account slackId purchased paid =
     \<lparr>slack = \<lparr>slack_id = slackId, slack_name = ''John Doe'', username = ''john.doe'',
               pictureUrl = ''https://example.com/john.jpg''\<rparr>,
      activity = \<lparr>totalPurchased = purchased, totalPaid = paid,
                  lastPurchaseTimestamp = 0, lastPaymentTimestamp = 0\<rparr>,
      isEmployee = True\<rparr>"

definition store0 :: firestore where
  "store0 = \<lparr>accounts = [(''account-123'', member_account ''U123'' 100 40)], transactions = []\<rparr>"

definition payment_doc :: "string \<Rightarrow> string \<Rightarrow> number \<Rightarrow> int \<Rightarrow> transaction_doc" where
  "payment_doc tref accountId amt ts =
     \<lparr>txn_id = tref, txn_type = ''payment'', txn_account = accountId, txn_amount = amt,
      txn_timestamp = ts\<rparr>"

text \<open>The store after a payment of 50 under the id \<open>txn-1\<close> at time 1700.\<close>

definition store1 :: firestore where
  "store1 =
     \<lparr>accounts =
        [(''account-123'',
          (member_account ''U123'' 100 90)
            \<lparr>activity := \<lparr>totalPurchased = 100, totalPaid = 90,
                           lastPurchaseTimestamp = 0, lastPaymentTimestamp = 1700\<rparr>\<rparr>)],
      transactions = [(''txn-1'', payment_doc ''txn-1'' ''account-123'' 50 1700)]\<rparr>"

text \<open>
  The gateway of the examples knows a paid checkout of 50 whose reference is \<open>txn-1\<close>
  and a pending one; the notification is the one the gateway sends for a checkout,
  with the account id as query parameter.
\<close>

definition checkout_paid :: checkout where
  "checkout_paid =
     \<lparr>checkout_id = ''checkout-123'', status = ''PAID'', amount = 50, currency = ''EUR'',
      checkout_reference = ''txn-1'', description = ''Test payment''\<rparr>"

definition gateway :: "string \<Rightarrow> thrown + checkout" where
  "gateway i =
     (if i = ''checkout-123'' then Inr checkout_paid
      else if i = ''checkout-456''
        then Inr (checkout_paid\<lparr>checkout_id := ''checkout-456'', status := ''PENDING''\<rparr>)
      else Inl (Error ''Checkout not found''))"

definition webhook0 :: webhook_env where
  "webhook0 =
     \<lparr>getCheckoutDetails = gateway, decodeURIComponent = Inr, Date_now = 1700,
      autoId = ''generated-id-123''\<rparr>"

definition notification :: "string \<Rightarrow> string \<Rightarrow> request" where
  "notification i accountIdEncoded =
     \<lparr>http_method = ''POST'', authorization = None,
      body = Some \<lparr>event_type = Some ''CHECKOUT_STATUS_CHANGED'', payload_id = Some i,
                   other_fields = []\<rparr>,
      query_accountId = Some accountIdEncoded, query_slackUserId = None\<rparr>"


text \<open>
  The balance endpoint of the examples: the key and merchant code are configured, the
  gateway creates every checkout it is asked for, and the ids need no escaping. The
  request carries a bearer token and asks for a Slack user.
\<close>

definition sumup :: "checkout_params \<Rightarrow> thrown + checkout_session" where
  "sumup params =
     Inr \<lparr>checkoutId = ''checkout-123'', checkoutUrl = ''https://pay.sumup.com/checkout-123''\<rparr>"

definition link0 :: link_env where
  "link0 =
     \<lparr>CHAQUIP_API_KEY = Some ''correct-api-key'', SUMUP_MERCHANT_CODE = Some ''MERCHANT123'',
      SUMUP_WEBHOOK_URL = Some ''https://example.com/webhook'', GCLOUD_PROJECT = Some ''test-project'',
      randomUUID = ''mock-uuid-123'', encodeURIComponent = (\<lambda>s. s), createCheckout = sumup\<rparr>"

definition lookup :: "string option \<Rightarrow> string \<Rightarrow> request" where
  "lookup authHeader slackUserId =
     \<lparr>http_method = ''GET'', authorization = authHeader, body = None,
      query_accountId = None, query_slackUserId = Some (QueryString slackUserId)\<rparr>"

definition store_credit :: firestore where
  "store_credit =
     \<lparr>accounts = [(''account-456'', member_account ''U456'' 40 100)], transactions = []\<rparr>"

text \<open>The checkout the endpoint asks for when the member of \<open>store0\<close> owes 60.\<close>

definition owed_params :: checkout_params where
  "owed_params =
     \<lparr>params_amount = 60, params_currency = ''EUR'', checkoutReference = ''mock-uuid-123'',
      params_description = ''Chaquip payment for John Doe'', merchantCode = ''MERCHANT123'',
      returnUrl = ''https://example.com/webhook?accountId=account-123''\<rparr>"

text \<open>A directory in which the member \<open>U123\<close> is marked deleted.\<close>

definition sample_directory :: "member list" where
  "sample_directory =
     [\<lparr>member_id = ''U123'', member_name = ''john.doe'', is_bot = False, deleted = True,
       email = Some ''john.doe@akeneo.com'', image_192 = ''https://example.com/john.jpg''\<rparr>]"

section \<open>Document paths\<close>

text \<open>
  A string without \<open>/\<close>, if not empty, is the path of the document it names; no
  reference is empty.
\<close>

lemma splitPath_plain: "CHR ''/'' \<notin> set s \<Longrightarrow> splitPath s = [s]"
  by (induction s) auto

lemma hasDoubleSlash_plain: "CHR ''/'' \<notin> set s \<Longrightarrow> \<not> hasDoubleSlash s"
  by (induction s rule: hasDoubleSlash.induct) auto

lemma doc_documentId: "isDocumentId s \<Longrightarrow> doc s = Inr [s]"
  by (simp add: isDocumentId_def doc_def splitPath_plain hasDoubleSlash_plain)

lemma doc_nonempty: "doc p = Inr ref \<Longrightarrow> ref \<noteq> []"
  by (auto simp: doc_def Let_def split: if_splits)

lemma transactionRef_doc: "doc tid = Inr tref \<Longrightarrow> transactionRef (Some tid) gen = Inr tref"
  by (auto simp: transactionRef_def doc_def split: if_splits)

section \<open>The ledger, step by step\<close>

lemma update_fresh:
  "map_of al k = None \<Longrightarrow> AList.update k v al = al @ [(k, v)]"
  by (induction al) (auto split: if_splits)

lemma keys_map_entry: "map fst (AList.map_entry k f xs) = map fst xs"
  by (induction xs) auto

lemma map_of_incrementPaid:
  "map_of (accounts fs) k = Some a \<Longrightarrow>
   map_of (AList.map_entry k (incrementPaid amt ts) (accounts fs)) =
     (map_of (accounts fs))(k \<mapsto> incrementPaid amt ts a)"
  by (simp add: map_of_map_entry fun_eq_iff)

lemma totalPaid_incrementPaid:
  "totalPaid (activity (incrementPaid amt ts a)) = totalPaid (activity a) + amt"
  "totalPurchased (activity (incrementPaid amt ts a)) = totalPurchased (activity a)"
  by (simp_all add: incrementPaid_def)

lemma accountAt_Some: "accountAt fs ref = Some a \<longleftrightarrow> (\<exists>k. ref = [k] \<and> map_of (accounts fs) k = Some a)"
  by (auto simp: accountAt_def split: list.splits)

lemma commit_payment:
  assumes "transactionAt fs tref = None"
  shows "commit [SetTransaction tref d, UpdateAccountPaid aref amt ts] fs =
     (case accountAt fs aref of
        None \<Rightarrow> Inl NOT_FOUND
      | Some a \<Rightarrow>
          Inr (fs\<lparr>transactions := transactions fs @ [(joinPath tref, d)],
                  accounts := AList.map_entry (refId aref) (incrementPaid amt ts) (accounts fs)\<rparr>))"
  using assms
  by (auto simp: transactionAt_def accountAt_def update_fresh split: option.splits list.splits)

text \<open>
  What \<open>addPayment\<close> does, case by case: a path that \<open>doc\<close> refuses rejects the call
  before the transaction starts, the transaction's path first; an existing transaction
  document aborts the transaction; a missing account fails the commit; otherwise both
  writes are applied.
\<close>

lemma addPayment_cases:
  "addPayment fs aid amt t gen ts =
     (case transactionRef t gen of
        Inl e \<Rightarrow> (Inl e, fs)
      | Inr tref \<Rightarrow>
          (case doc aid of
             Inl e \<Rightarrow> (Inl e, fs)
           | Inr aref \<Rightarrow>
               if transactionAt fs tref \<noteq> None
               then (Inl (Error ''Transaction already exists''), fs)
               else (case accountAt fs aref of
                       None \<Rightarrow> (Inl NOT_FOUND, fs)
                     | Some a \<Rightarrow>
                         (Inr (),
                          fs\<lparr>transactions :=
                                transactions fs @
                                  [(joinPath tref,
                                    \<lparr>txn_id = refId tref, txn_type = ''payment'',
                                     txn_account = aid, txn_amount = amt,
                                     txn_timestamp = ts\<rparr>)],
                              accounts :=
                                AList.map_entry (refId aref) (incrementPaid amt ts)
                                  (accounts fs)\<rparr>))))"
  by (auto simp: addPayment_def runTransaction_def addPayment_body_def commit_payment
        simp del: commit.simps split: option.splits sum.splits)

text \<open>
  For document ids, the references are the ids themselves.
\<close>

lemma addPayment_ids:
  assumes "isDocumentId tid" and "isDocumentId aid"
  shows "addPayment fs aid amt (Some tid) gen ts =
     (if map_of (transactions fs) tid \<noteq> None
      then (Inl (Error ''Transaction already exists''), fs)
      else (case map_of (accounts fs) aid of
              None \<Rightarrow> (Inl NOT_FOUND, fs)
            | Some a \<Rightarrow>
                (Inr (),
                 fs\<lparr>transactions :=
                       transactions fs @
                         [(tid, \<lparr>txn_id = tid, txn_type = ''payment'', txn_account = aid,
                                 txn_amount = amt, txn_timestamp = ts\<rparr>)],
                     accounts := AList.map_entry aid (incrementPaid amt ts) (accounts fs)\<rparr>)))"
proof -
  from assms(1) have "tid \<noteq> []" by (simp add: isDocumentId_def)
  then have "transactionRef (Some tid) gen = Inr [tid]"
    using assms(1) by (simp add: transactionRef_def doc_documentId)
  then show ?thesis
    by (simp add: addPayment_cases doc_documentId [OF assms(2)] transactionAt_def accountAt_def
          refId_def split: option.splits)
qed

text \<open>
  One invocation whose requests are handled with no other in between is \<open>addPayment\<close>:
  a refused path settles it at once, otherwise its two requests (the attempt, the
  commit) settle it as \<open>addPayment\<close> does.
\<close>

lemma addPayment_stepwise:
  "(\<forall>r. addPayment_start c = Settled r \<longrightarrow>
      addPayment fs (call_accountId c) (call_amount c) (call_transactionId c) (call_autoId c)
        (call_timestamp c) = (r, fs))
   \<and> (addPayment_start c = Begin 0 \<longrightarrow>
      (case addPayment_step c (Begin 0) fs of
         (st, fs1) \<Rightarrow>
           (case addPayment_step c st fs1 of
              (st', fs2) \<Rightarrow>
                (st', fs2) =
                  (Settled (fst (addPayment fs (call_accountId c) (call_amount c)
                      (call_transactionId c) (call_autoId c) (call_timestamp c))),
                   snd (addPayment fs (call_accountId c) (call_amount c)
                      (call_transactionId c) (call_autoId c) (call_timestamp c))))))"
  by (auto simp: addPayment_start_def addPayment_step_def addPayment_def runTransaction_def
        txn_step_def addPayment_body_def
        simp del: commit.simps split: sum.splits option.splits)

section \<open>Claims about the payment ledger\<close>




text \<open>
  C2. Valid arguments: \<open>transactionId\<close> and \<open>accountId\<close> are paths that \<open>doc\<close> accepts,
  the account document exists and the transaction document does not. Two invocations
  with the same account, amount and \<open>transactionId\<close> are in flight at once, and the
  server handles their requests in the order of an arbitrary schedule. Once each has
  had three of its requests handled, both have settled. They are never both fulfilled.
  When both have settled, one promise is fulfilled and the other is rejected with
  "Transaction already exists", the account's \<open>totalPaid\<close> has grown by \<open>amount\<close> once,
  and one transaction document was added, the only one at the path \<open>transactionId\<close>
  names.
\<close>

theorem concurrent_addPayment_once:
  assumes "doc tid = Inr tref" and "doc aid = Inr aref"
    and "accountAt fs aref = Some a"
    and "transactionAt fs tref = None"
    and "concurrently schedule
           \<lparr>call_accountId = aid, call_amount = amt, call_transactionId = Some tid,
            call_autoId = gen1, call_timestamp = ts1\<rparr>
           \<lparr>call_accountId = aid, call_amount = amt, call_transactionId = Some tid,
            call_autoId = gen2, call_timestamp = ts2\<rparr> fs = (s1, s2, fs')"
  shows
    "(3 \<le> count_list schedule True \<and> 3 \<le> count_list schedule False \<longrightarrow>
        (\<exists>r1 r2. s1 = Settled r1 \<and> s2 = Settled r2))
     \<and> \<not> (s1 = Settled (Inr ()) \<and> s2 = Settled (Inr ()))
     \<and> (\<forall>r1 r2. s1 = Settled r1 \<and> s2 = Settled r2 \<longrightarrow>
          ((r1 = Inr () \<and> r2 = Inl DuplicateTransaction)
            \<or> (r1 = Inl DuplicateTransaction \<and> r2 = Inr ()))
          \<and> (\<exists>a'. accountAt fs' aref = Some a'
                \<and> totalPaid (activity a') = totalPaid (activity a) + amt)
          \<and> length (transactions fs') = length (transactions fs) + 1
          \<and> length (filter (\<lambda>d. fst d = joinPath tref) (transactions fs')) = 1)"
proof -
  define c1 where "c1 = \<lparr>call_accountId = aid, call_amount = amt, call_transactionId = Some tid,
      call_autoId = gen1, call_timestamp = ts1\<rparr>"
  define c2 where "c2 = \<lparr>call_accountId = aid, call_amount = amt, call_transactionId = Some tid,
      call_autoId = gen2, call_timestamp = ts2\<rparr>"
  define pay where "pay = (\<lambda>ts. \<lparr>txn_id = refId tref, txn_type = ''payment'', txn_account = aid,
      txn_amount = amt, txn_timestamp = ts\<rparr>)"
  define W where "W = (\<lambda>ts. [SetTransaction tref (pay ts), UpdateAccountPaid aref amt ts])"
  define F where "F = (\<lambda>ts. fs\<lparr>transactions := transactions fs @ [(joinPath tref, pay ts)],
      accounts := AList.map_entry (refId aref) (incrementPaid amt ts) (accounts fs)\<rparr>)"
  define body where "body = (\<lambda>ts. addPayment_body tref aid aref amt ts)"
  have tref: "transactionRef (Some tid) g = Inr tref" for g
    by (rule transactionRef_doc [OF assms(1)])
  note aref = assms(2)
  from assms(3) obtain k where key: "aref = [k]" and stored: "map_of (accounts fs) k = Some a"
    by (auto simp: accountAt_Some)
  have step1: "addPayment_step c1 st store = txn_step tref (body ts1) st store" for st store
    by (simp add: addPayment_step_def c1_def tref aref body_def)
  have step2: "addPayment_step c2 st store = txn_step tref (body ts2) st store" for st store
    by (simp add: addPayment_step_def c2_def tref aref body_def)
  have start: "addPayment_start c1 = Begin 0" "addPayment_start c2 = Begin 0"
    by (simp_all add: addPayment_start_def c1_def c2_def tref aref)
  note absent = assms(4)
  have present: "transactionAt (F ts) tref = Some (pay ts)" for ts
    using assms(4) by (simp add: transactionAt_def F_def map_add_def)
  note account = assms(3)
  have body0: "body ts fs = Inr (W ts)" for ts
    by (simp add: body_def addPayment_body_def absent W_def pay_def refId_def)
  have bodyF: "body ts (F ts') = Inl DuplicateTransaction" for ts ts'
    by (simp add: body_def addPayment_body_def present DuplicateTransaction_def)
  have commit0: "commit (W ts) fs = Inr (F ts)" for ts
    unfolding W_def by (simp add: commit_payment [OF absent] account F_def refId_def
      del: commit.simps)
  define Inv where "Inv = (\<lambda>t1 t2 store.
      (store = fs \<and> (t1 = Begin 0 \<or> t1 = Body_done 0 None (W ts1))
                  \<and> (t2 = Begin 0 \<or> t2 = Body_done 0 None (W ts2)))
      \<or> (store = F ts1 \<and> t1 = Settled (Inr ())
           \<and> (t2 = Begin 0 \<or> t2 = Begin 1 \<or> t2 = Body_done 0 None (W ts2)
                \<or> t2 = Settled (Inl DuplicateTransaction)))
      \<or> (store = F ts2 \<and> t2 = Settled (Inr ())
           \<and> (t1 = Begin 0 \<or> t1 = Begin 1 \<or> t1 = Body_done 0 None (W ts1)
                \<or> t1 = Settled (Inl DuplicateTransaction))))"
  define rk where "rk = (\<lambda>t store. case t of
        Settled r \<Rightarrow> (0::nat)
      | Body_done n seen ws \<Rightarrow> 2
      | Begin n \<Rightarrow> if transactionAt store tref = None then 3 else 1)"
  have e1: "txn_step tref (body ts) (Begin n) fs = (Body_done n None (W ts), fs)" for ts n
    by (simp add: txn_step_def body0 absent)
  have e2: "txn_step tref (body ts) (Body_done n None (W ts)) fs = (Settled (Inr ()), F ts)"
    for ts n
    by (simp add: txn_step_def absent commit0 del: commit.simps)
  have e3: "txn_step tref (body ts) (Begin n) (F ts') = (Settled (Inl DuplicateTransaction), F ts')"
    for ts ts' n
    by (simp add: txn_step_def bodyF)
  have e4: "txn_step tref (body ts) (Body_done 0 None w) (F ts') = (Begin 1, F ts')" for ts ts' w
    by (simp add: txn_step_def present maxAttempts_def)
  have e5: "txn_step tref (body ts) (Settled r) store = (Settled r, store)" for ts r store
    by (simp add: txn_step_def)
  have k: "rk (Begin n) fs = 3" "rk (Begin n) (F ts) = 1" "rk (Body_done n seen w) store = 2"
      "rk (Settled r) store = 0" for n ts seen w r store
    by (simp_all add: rk_def absent present)
  have first: "Inv t1' t2 store' \<and> rk t1' store' \<le> rk t1 store - 1 \<and> rk t2 store' \<le> rk t2 store"
    if "Inv t1 t2 store" and "(t1', store') = txn_step tref (body ts1) t1 store"
    for t1 t2 store t1' store'
    using that unfolding Inv_def
    by (elim disjE conjE) (simp_all add: e1 e2 e3 e4 e5 k)
  have second: "Inv t1 t2' store' \<and> rk t2' store' \<le> rk t2 store - 1 \<and> rk t1 store' \<le> rk t1 store"
    if "Inv t1 t2 store" and "(t2', store') = txn_step tref (body ts2) t2 store"
    for t1 t2 store t2' store'
    using that unfolding Inv_def
    by (elim disjE conjE) (simp_all add: e1 e2 e3 e4 e5 k)
  have main: "Inv u1 u2 store' \<and> rk u1 store' \<le> rk t1 store - count_list sched True
      \<and> rk u2 store' \<le> rk t2 store - count_list sched False"
    if "Inv t1 t2 store" and "interleave sched c1 c2 (t1, t2, store) = (u1, u2, store')"
    for sched t1 t2 store u1 u2 store'
    using that
  proof (induction sched arbitrary: t1 t2 store)
    case Nil
    then show ?case by simp
  next
    case (Cons b sched)
    show ?case
    proof (cases b)
      case True
      obtain t1' st' where st: "txn_step tref (body ts1) t1 store = (t1', st')"
        by (cases "txn_step tref (body ts1) t1 store")
      from first [OF Cons.prems(1) st [symmetric]]
      have i: "Inv t1' t2 st'" and r1: "rk t1' st' \<le> rk t1 store - 1"
        and r2: "rk t2 st' \<le> rk t2 store" by simp_all
      from Cons.prems(2) True st
      have "interleave sched c1 c2 (t1', t2, st') = (u1, u2, store')"
        by (simp add: step1)
      from Cons.IH [OF i this] r1 r2 True show ?thesis by auto
    next
      case False
      obtain t2' st' where st: "txn_step tref (body ts2) t2 store = (t2', st')"
        by (cases "txn_step tref (body ts2) t2 store")
      from second [OF Cons.prems(1) st [symmetric]]
      have i: "Inv t1 t2' st'" and r2: "rk t2' st' \<le> rk t2 store - 1"
        and r1: "rk t1 st' \<le> rk t1 store" by simp_all
      from Cons.prems(2) False st
      have "interleave sched c1 c2 (t1, t2', st') = (u1, u2, store')"
        by (simp add: step2)
      from Cons.IH [OF i this] r1 r2 False show ?thesis by auto
    qed
  qed
  have init: "Inv (Begin 0) (Begin 0) fs"
    by (simp add: Inv_def)
  from assms(5) have run: "interleave schedule c1 c2 (Begin 0, Begin 0, fs) = (s1, s2, fs')"
    by (simp add: concurrently_def c1_def c2_def start [unfolded c1_def c2_def])
  from main [OF init run]
  have inv: "Inv s1 s2 fs'" and k1: "rk s1 fs' \<le> rk (Begin 0) fs - count_list schedule True"
    and k2: "rk s2 fs' \<le> rk (Begin 0) fs - count_list schedule False"
    by simp_all
  have rk0: "rk (Begin 0) fs = 3"
    by (simp add: rk_def absent)
  have zero: "rk t store = 0 \<Longrightarrow> \<exists>r. t = Settled r" for t store
    by (cases t) (simp_all add: rk_def split: if_splits)
  have live: "3 \<le> count_list schedule True \<and> 3 \<le> count_list schedule False \<longrightarrow>
        (\<exists>r1 r2. s1 = Settled r1 \<and> s2 = Settled r2)"
    using k1 k2 rk0 zero [of s1 fs'] zero [of s2 fs'] by auto
  have none: "filter (\<lambda>d. fst d = joinPath tref) (transactions fs) = []"
    using assms(4)
    by (auto simp: transactionAt_def filter_empty_conv map_of_eq_None_iff image_iff)
  have paid: "\<exists>a'. accountAt (F ts) aref = Some a'
      \<and> totalPaid (activity a') = totalPaid (activity a) + amt" for ts
    by (simp add: F_def accountAt_def key refId_def map_of_incrementPaid [OF stored]
          totalPaid_incrementPaid)
  have len: "length (transactions (F ts)) = length (transactions fs) + 1
      \<and> length (filter (\<lambda>d. fst d = joinPath tref) (transactions (F ts))) = 1" for ts
    by (simp add: F_def none)
  have safe: "\<not> (s1 = Settled (Inr ()) \<and> s2 = Settled (Inr ()))"
    using inv by (auto simp: Inv_def DuplicateTransaction_def)
  have result: "((r1 = Inr () \<and> r2 = Inl DuplicateTransaction)
            \<or> (r1 = Inl DuplicateTransaction \<and> r2 = Inr ()))
          \<and> (\<exists>a'. accountAt fs' aref = Some a'
                \<and> totalPaid (activity a') = totalPaid (activity a) + amt)
          \<and> length (transactions fs') = length (transactions fs) + 1
          \<and> length (filter (\<lambda>d. fst d = joinPath tref) (transactions fs')) = 1"
    if "s1 = Settled r1 \<and> s2 = Settled r2" for r1 r2
    using inv that paid len by (auto simp: Inv_def)
  from live safe result show ?thesis by blast
qed

text \<open>
  Scenario D: two calls for 50 under \<open>txn-1\<close> at once. Both attempts read before either
  commits; in the first schedule the first invocation commits first, in the second the
  second. The commit of the other is refused, its second attempt finds the document
  and throws. \<open>totalPaid\<close> goes from 40 to 90.
\<close>

theorem concurrent_addPayment_once_witness:
  "doc ''txn-1'' = Inr [''txn-1''] \<and> doc ''account-123'' = Inr [''account-123'']
   \<and> accountAt store0 [''account-123''] = Some (member_account ''U123'' 100 40)
   \<and> transactionAt store0 [''txn-1''] = None
   \<and> concurrently [True, False, True, False, False, True]
        \<lparr>call_accountId = ''account-123'', call_amount = 50,
         call_transactionId = Some ''txn-1'', call_autoId = ''generated-id-123'',
         call_timestamp = 1700\<rparr>
        \<lparr>call_accountId = ''account-123'', call_amount = 50,
         call_transactionId = Some ''txn-1'', call_autoId = ''generated-id-456'',
         call_timestamp = 1700\<rparr> store0
       = (Settled (Inr ()), Settled (Inl DuplicateTransaction), store1)
   \<and> concurrently [False, False, True, True, False, True]
        \<lparr>call_accountId = ''account-123'', call_amount = 50,
         call_transactionId = Some ''txn-1'', call_autoId = ''generated-id-123'',
         call_timestamp = 1700\<rparr>
        \<lparr>call_accountId = ''account-123'', call_amount = 50,
         call_transactionId = Some ''txn-1'', call_autoId = ''generated-id-456'',
         call_timestamp = 1700\<rparr> store0
       = (Settled (Inl DuplicateTransaction), Settled (Inr ()), store1)
   \<and> (\<exists>a'. accountAt store1 [''account-123''] = Some a'
         \<and> totalPaid (activity a') = 40 + 50)"
proof -
  have t: "doc ''txn-1'' = Inr [''txn-1'']" and a: "doc ''account-123'' = Inr [''account-123'']"
    by (simp_all add: doc_def)
  note d = t a
  have acc: "accountAt store0 [''account-123''] = Some (member_account ''U123'' 100 40)"
    by (simp add: store0_def accountAt_def)
  have tx: "transactionAt store0 [''txn-1''] = None"
    by (simp add: store0_def transactionAt_def)
  have run1: "concurrently [True, False, True, False, False, True]
        \<lparr>call_accountId = ''account-123'', call_amount = 50,
         call_transactionId = Some ''txn-1'', call_autoId = ''generated-id-123'',
         call_timestamp = 1700\<rparr>
        \<lparr>call_accountId = ''account-123'', call_amount = 50,
         call_transactionId = Some ''txn-1'', call_autoId = ''generated-id-456'',
         call_timestamp = 1700\<rparr> store0
       = (Settled (Inr ()), Settled (Inl DuplicateTransaction), store1)"
    by (simp add: concurrently_def addPayment_start_def addPayment_step_def transactionRef_def d
          txn_step_def addPayment_body_def transactionAt_def accountAt_def refId_def
          maxAttempts_def DuplicateTransaction_def store0_def store1_def member_account_def
          payment_doc_def incrementPaid_def)
  have run2: "concurrently [False, False, True, True, False, True]
        \<lparr>call_accountId = ''account-123'', call_amount = 50,
         call_transactionId = Some ''txn-1'', call_autoId = ''generated-id-123'',
         call_timestamp = 1700\<rparr>
        \<lparr>call_accountId = ''account-123'', call_amount = 50,
         call_transactionId = Some ''txn-1'', call_autoId = ''generated-id-456'',
         call_timestamp = 1700\<rparr> store0
       = (Settled (Inl DuplicateTransaction), Settled (Inr ()), store1)"
    by (simp add: concurrently_def addPayment_start_def addPayment_step_def transactionRef_def d
          txn_step_def addPayment_body_def transactionAt_def accountAt_def refId_def
          maxAttempts_def DuplicateTransaction_def store0_def store1_def member_account_def
          payment_doc_def incrementPaid_def)
  from concurrent_addPayment_once [OF t a acc tx run1]
  have "\<exists>a'. accountAt store1 [''account-123''] = Some a'
         \<and> totalPaid (activity a') = totalPaid (activity (member_account ''U123'' 100 40)) + 50"
    by blast
  then have "\<exists>a'. accountAt store1 [''account-123''] = Some a'
         \<and> totalPaid (activity a') = 40 + 50"
    by (simp add: member_account_def)
  with t a acc tx run1 run2 show ?thesis by blast
qed

text \<open>
  C8, as amended. \<open>addPayment\<close> does not look at the sign of \<open>amount\<close>. Whatever the
  arguments and the outcome, it leaves the set of accounts and every \<open>totalPurchased\<close>
  as they are, and changes \<open>totalPaid\<close> by exactly \<open>amount\<close> for the account document
  that \<open>accountId\<close> names when the call is fulfilled, and of no account otherwise. So
  for \<open>amount \<ge> 0\<close> neither total of any account decreases and a non-negative total
  stays non-negative.
\<close>

theorem addPayment_totals:
  assumes "addPayment fs aid amt t gen ts = (r, fs')"
  shows "map fst (accounts fs') = map fst (accounts fs)
     \<and> (\<forall>k a. map_of (accounts fs) k = Some a \<longrightarrow>
          (\<exists>a'. map_of (accounts fs') k = Some a'
             \<and> totalPaid (activity a') =
                 totalPaid (activity a) + (if r = Inr () \<and> doc aid = Inr [k] then amt else 0)
             \<and> totalPurchased (activity a') = totalPurchased (activity a)
             \<and> (0 \<le> amt \<longrightarrow> totalPaid (activity a) \<le> totalPaid (activity a'))
             \<and> (0 \<le> amt \<and> 0 \<le> totalPaid (activity a) \<longrightarrow> 0 \<le> totalPaid (activity a'))
             \<and> (0 \<le> totalPurchased (activity a) \<longrightarrow> 0 \<le> totalPurchased (activity a'))))"
  using assms
  by (auto simp: addPayment_cases keys_map_entry map_of_map_entry totalPaid_incrementPaid
        accountAt_def refId_def
        split: if_splits sum.splits option.splits list.splits)

text \<open>The payment of 50 takes \<open>totalPaid\<close> from 40 to 90 and leaves \<open>totalPurchased\<close> at 100.\<close>

theorem addPayment_totals_witness:
  "addPayment store0 ''account-123'' 50 (Some ''txn-1'') ''generated-id-123'' 1700
       = (Inr (), store1)
   \<and> doc ''account-123'' = Inr [''account-123'']
   \<and> map (\<lambda>d. totalPaid (activity (snd d))) (accounts store0) = [40]
   \<and> map (\<lambda>d. totalPaid (activity (snd d))) (accounts store1) = [90]
   \<and> (\<exists>a'. map_of (accounts store1) ''account-123'' = Some a'
         \<and> totalPaid (activity a') = 40 + 50 \<and> totalPurchased (activity a') = 100)"
proof -
  have ids: "isDocumentId ''txn-1''" "isDocumentId ''account-123''"
    by (simp_all add: isDocumentId_def)
  have run: "addPayment store0 ''account-123'' 50 (Some ''txn-1'') ''generated-id-123'' 1700
      = (Inr (), store1)"
    by (simp add: addPayment_ids [OF ids] store0_def store1_def member_account_def
          payment_doc_def incrementPaid_def)
  have d: "doc ''account-123'' = Inr [''account-123'']"
    by (simp add: doc_documentId ids)
  have acc: "map_of (accounts store0) ''account-123'' = Some (member_account ''U123'' 100 40)"
    by (simp add: store0_def)
  from addPayment_totals [OF run] acc d
  have "\<exists>a'. map_of (accounts store1) ''account-123'' = Some a'
         \<and> totalPaid (activity a') = 40 + 50 \<and> totalPurchased (activity a') = 100"
    by (fastforce simp: member_account_def)
  with run d show ?thesis
    by (simp add: store0_def store1_def member_account_def)
qed

text \<open>
  C8 as stated, for every amount \<open>addPayment\<close> accepts, fails for a negative one: the
  call with \<open>-50\<close> is fulfilled and takes \<open>totalPaid\<close> from 40 to \<open>-10\<close>.
\<close>

theorem addPayment_totals_counterexample:
  "fst (addPayment store0 ''account-123'' (- 50) (Some ''refund-1'') ''generated-id-123'' 1700)
     = Inr ()
   \<and> map (\<lambda>d. totalPaid (activity (snd d))) (accounts store0) = [40]
   \<and> map (\<lambda>d. totalPaid (activity (snd d)))
       (accounts (snd (addPayment store0 ''account-123'' (- 50) (Some ''refund-1'')
          ''generated-id-123'' 1700))) = [- 10]"
proof -
  have ids: "isDocumentId ''refund-1''" "isDocumentId ''account-123''"
    by (simp_all add: isDocumentId_def)
  show ?thesis
    by (simp add: addPayment_ids [OF ids] store0_def member_account_def incrementPaid_def)
qed

section \<open>The webhook handler, step by step\<close>

text \<open>
  When the handler goes on to \<open>addPayment\<close>, all its checks have passed.
\<close>

lemma verify_Record:
  assumes "validatePayment_verify env req fs = (Record aid c, calls)"
  shows "\<exists>p cid enc aref tref. http_method req = ''POST'' \<and> body req = Some p
           \<and> event_type p = Some ''CHECKOUT_STATUS_CHANGED''
           \<and> payload_id p = Some cid \<and> cid \<noteq> []
           \<and> query_accountId req = Some enc \<and> enc \<noteq> []
           \<and> decodeURIComponent env enc = Inr aid
           \<and> getCheckoutDetails env cid = Inr c \<and> status c = ''PAID''
           \<and> doc aid = Inr aref \<and> accountAt fs aref \<noteq> None
           \<and> doc (checkout_reference c) = Inr tref \<and> transactionAt fs tref = None
           \<and> calls = [GetCheckoutDetails cid, GetAccount aid,
                       GetTransaction (checkout_reference c)]"
  using assms
  by (auto simp: validatePayment_verify_def
        split: if_splits option.splits sum.splits)


text \<open>
  The response and the store after \<open>addPayment\<close>; on the store the handler has just
  read, \<open>addPayment\<close> is fulfilled.
\<close>

lemma record_cases:
  "validatePayment_record env aid c fs =
     (case fst (addPayment fs aid (amount c) (Some (checkout_reference c)) (autoId env)
                  (Date_now env)) of
        Inl e \<Rightarrow> caught e
      | Inr u \<Rightarrow> send 200 [],
      snd (addPayment fs aid (amount c) (Some (checkout_reference c)) (autoId env)
             (Date_now env)))"
  by (auto simp: validatePayment_record_def split: prod.splits sum.splits)



text \<open>
  A rejected \<open>addPayment\<close>, the duplicate included, is answered with \<open>500\<close>.
\<close>

lemma record_rejected:
  "fst (addPayment fs aid (amount c) (Some (checkout_reference c)) (autoId env) (Date_now env))
     = Inl e \<Longrightarrow>
   fst (validatePayment_record env aid c fs) = caught e"
  by (simp add: record_cases)

text \<open>
  The paid checkout is recorded for the account; the pending one is acknowledged; a
  delivery after the recording is acknowledged, also when the account path has a
  trailing slash; the account path \<open>a/b\<close> is refused.
\<close>

lemma run_recorded:
  "validatePayment webhook0 (notification ''checkout-123'' ''account-123'') store0 =
     (send 200 [], store1,
      [GetCheckoutDetails ''checkout-123'', GetAccount ''account-123'',
       GetTransaction ''txn-1'', AddPayment ''account-123'' 50 ''txn-1''])"
  by (simp add: validatePayment_def validatePayment_verify_def doc_def
        notification_def webhook0_def gateway_def checkout_paid_def store0_def store1_def
        finish_def recorded_def validatePayment_record_def addPayment_cases transactionRef_def
        transactionAt_def accountAt_def refId_def member_account_def payment_doc_def
        incrementPaid_def)

lemma run_pending:
  "validatePayment webhook0 (notification ''checkout-456'' ''account-123'') store0 =
     (send 200 [], store0, [GetCheckoutDetails ''checkout-456''])"
  by (simp add: validatePayment_def validatePayment_verify_def
        notification_def webhook0_def gateway_def checkout_paid_def finish_def recorded_def)

lemma run_replayed:
  "validatePayment webhook0 (notification ''checkout-123'' ''account-123'') store1 =
     (send 200 [], store1,
      [GetCheckoutDetails ''checkout-123'', GetAccount ''account-123'',
       GetTransaction ''txn-1''])"
  by (simp add: validatePayment_def validatePayment_verify_def doc_def
        notification_def webhook0_def gateway_def checkout_paid_def store1_def
        transactionAt_def accountAt_def finish_def recorded_def)






section \<open>Claims about the webhook handler\<close>




text \<open>
  C4: the handler does not treat the ledger's duplicate signal as success. Two
  deliveries of the same notification are handled at once; both find no transaction
  document, both call \<open>addPayment\<close>. The first is answered \<open>200\<close>; the second
  \<open>addPayment\<close> is rejected with "Transaction already exists", the \<open>catch\<close> block
  answers \<open>500\<close>. The payment is recorded once.
\<close>

theorem validatePayment_duplicate_is_server_error:
  "validatePayment_interleaved
     webhook0 (notification ''checkout-123'' ''account-123'')
     webhook0 (notification ''checkout-123'' ''account-123'') store0 =
     (send 200 [], send 500 ''Internal Server Error: Transaction already exists'', store1)"
  by (simp add: validatePayment_interleaved_def validatePayment_verify_def doc_def
        notification_def webhook0_def gateway_def checkout_paid_def store0_def store1_def
        finish_def validatePayment_record_def addPayment_cases transactionRef_def caught_def
        transactionAt_def accountAt_def refId_def
        member_account_def payment_doc_def incrementPaid_def)

text \<open>
  C5. In every run of the handler: \<open>addPayment\<close> is called only as the last of four
  calls, the first of which fetched the checkout named by the notification's \<open>id\<close>
  from the gateway, and the gateway's answer had status \<open>PAID\<close>; the amount and the
  transaction id recorded are the gateway's. The store changes only if \<open>addPayment\<close>
  was called. If the fetched status is not \<open>PAID\<close> the handler answers \<open>200\<close>, calls
  nothing else and leaves the store unchanged. Nothing else in the body (a status it
  claims, for one) changes the outcome.
\<close>

theorem validatePayment_records_only_verified_paid:
  assumes "validatePayment env req fs = (r, fs', calls)"
  shows
    "(\<forall>aid amt t. AddPayment aid amt t \<in> set calls \<longrightarrow>
        (\<exists>p cid c. body req = Some p \<and> payload_id p = Some cid
           \<and> getCheckoutDetails env cid = Inr c \<and> status c = ''PAID''
           \<and> amt = amount c \<and> t = checkout_reference c
           \<and> calls = [GetCheckoutDetails cid, GetAccount aid, GetTransaction t,
                       AddPayment aid amt t]))
     \<and> (fs' \<noteq> fs \<longrightarrow> (\<exists>aid amt t. AddPayment aid amt t \<in> set calls))
     \<and> (\<forall>cid c. GetCheckoutDetails cid \<in> set calls \<and> getCheckoutDetails env cid = Inr c
            \<and> status c \<noteq> ''PAID'' \<longrightarrow>
          r = send 200 [] \<and> fs' = fs \<and> calls = [GetCheckoutDetails cid])
     \<and> (\<forall>p extra. body req = Some p \<longrightarrow>
          validatePayment env (req\<lparr>body := Some (p\<lparr>other_fields := extra\<rparr>)\<rparr>) fs
            = (r, fs', calls))"
proof -
  obtain v calls0 where v: "validatePayment_verify env req fs = (v, calls0)"
    by (cases "validatePayment_verify env req fs")
  from assms v have out: "finish env v fs = (r, fs')" and calls: "calls = calls0 @ recorded v"
    by (auto simp: validatePayment_def split: prod.splits)
  have first: "\<exists>p cid c. body req = Some p \<and> payload_id p = Some cid
           \<and> getCheckoutDetails env cid = Inr c \<and> status c = ''PAID''
           \<and> amt = amount c \<and> t = checkout_reference c
           \<and> calls = [GetCheckoutDetails cid, GetAccount aid, GetTransaction t,
                       AddPayment aid amt t]"
    if "AddPayment aid amt t \<in> set calls" for aid amt t
  proof (cases v)
    case (Respond x)
    with v that calls show ?thesis
      by (auto simp: recorded_def validatePayment_verify_def
            split: if_splits option.splits sum.splits)
  next
    case (Record a c)
    with v have "validatePayment_verify env req fs = (Record a c, calls0)" by simp
    from verify_Record [OF this] Record that calls show ?thesis
      by (auto simp: recorded_def)
  qed
  have second: "\<exists>aid amt t. AddPayment aid amt t \<in> set calls" if "fs' \<noteq> fs"
    using that out calls by (cases v) (auto simp: finish_def recorded_def)
  have third: "r = send 200 [] \<and> fs' = fs \<and> calls = [GetCheckoutDetails cid]"
    if "GetCheckoutDetails cid \<in> set calls" and "getCheckoutDetails env cid = Inr c"
      and "status c \<noteq> ''PAID''" for cid c
  proof (cases v)
    case (Respond x)
    with v that calls out show ?thesis
      by (auto simp: recorded_def finish_def validatePayment_verify_def
            split: if_splits option.splits sum.splits)
  next
    case (Record a c')
    with v have "validatePayment_verify env req fs = (Record a c', calls0)" by simp
    from verify_Record [OF this] Record that calls show ?thesis
      by (auto simp: recorded_def)
  qed
  have same: "validatePayment_verify env (req\<lparr>body := Some (p\<lparr>other_fields := extra\<rparr>)\<rparr>) fs
      = validatePayment_verify env req fs" if "body req = Some p" for p extra
    using that by (simp add: validatePayment_verify_def split: option.splits)
  have fourth: "validatePayment env (req\<lparr>body := Some (p\<lparr>other_fields := extra\<rparr>)\<rparr>) fs
      = (r, fs', calls)" if "body req = Some p" for p extra
    using assms same [OF that] by (simp add: validatePayment_def)
  from first second third fourth show ?thesis by blast
qed

text \<open>
  The notification for the paid checkout is recorded after the fetch. The notification
  for the pending checkout is acknowledged and nothing is recorded, also when its body
  claims the status \<open>PAID\<close>.
\<close>

theorem validatePayment_records_only_verified_paid_witness:
  "validatePayment webhook0 (notification ''checkout-123'' ''account-123'') store0 =
     (send 200 [], store1,
      [GetCheckoutDetails ''checkout-123'', GetAccount ''account-123'',
       GetTransaction ''txn-1'', AddPayment ''account-123'' 50 ''txn-1''])
   \<and> getCheckoutDetails webhook0 ''checkout-123'' = Inr checkout_paid
   \<and> status checkout_paid = ''PAID''
   \<and> validatePayment webhook0
        ((notification ''checkout-456'' ''account-123'')
           \<lparr>body := Some \<lparr>event_type = Some ''CHECKOUT_STATUS_CHANGED'',
                           payload_id = Some ''checkout-456'',
                           other_fields = [(''status'', ''PAID'')]\<rparr>\<rparr>) store0 =
       (send 200 [], store0, [GetCheckoutDetails ''checkout-456''])"
proof -
  have paid: "getCheckoutDetails webhook0 ''checkout-123'' = Inr checkout_paid"
    "status checkout_paid = ''PAID''"
    by (simp_all add: webhook0_def gateway_def checkout_paid_def)
  have b: "body (notification ''checkout-456'' ''account-123'') =
      Some \<lparr>event_type = Some ''CHECKOUT_STATUS_CHANGED'', payload_id = Some ''checkout-456'',
            other_fields = []\<rparr>"
    by (simp add: notification_def)
  from validatePayment_records_only_verified_paid [OF run_pending] b
  have "validatePayment webhook0
        ((notification ''checkout-456'' ''account-123'')
           \<lparr>body := Some (\<lparr>event_type = Some ''CHECKOUT_STATUS_CHANGED'',
                            payload_id = Some ''checkout-456'', other_fields = []\<rparr>
                          \<lparr>other_fields := [(''status'', ''PAID'')]\<rparr>)\<rparr>) store0 =
       (send 200 [], store0, [GetCheckoutDetails ''checkout-456''])"
    by blast
  with run_recorded paid show ?thesis by simp
qed




section \<open>Claims about the balance endpoint\<close>

lemma bearer: "take 7 h = ''Bearer '' \<and> drop 7 h = key \<longleftrightarrow> h = ''Bearer '' @ key"
proof
  assume "take 7 h = ''Bearer '' \<and> drop 7 h = key"
  then have "take 7 h @ drop 7 h = ''Bearer '' @ key" by simp
  then show "h = ''Bearer '' @ key" by simp
next
  assume "h = ''Bearer '' @ key"
  then show "take 7 h = ''Bearer '' \<and> drop 7 h = key" by simp
qed

text \<open>The endpoint once the request is authenticated and the member is found.\<close>

lemma lookup_authenticated:
  assumes "http_method req = ''GET''" and "CHAQUIP_API_KEY env = Some key" and "key \<noteq> []"
    and "authorization req = Some (''Bearer '' @ key)"
    and "query_slackUserId req = Some (QueryString uid)" and "uid \<noteq> []"
    and "find (\<lambda>d. slack_id (slack (snd d)) = uid) (accounts fs) = Some (aid, a)"
  shows "getPaymentLinkForSlackUser env req fs =
     (let balance = totalPaid (activity a) - totalPurchased (activity a)
      in if balance \<ge> 0 then (reply 200 (BalanceJson balance), [])
         else (case SUMUP_MERCHANT_CODE env of
           None \<Rightarrow> (reply 500 (ErrorJson ''Internal server error''), [])
         | Some code \<Rightarrow>
           if code = [] then (reply 500 (ErrorJson ''Internal server error''), [])
           else (let params =
                      \<lparr>params_amount = \<bar>balance\<bar>, params_currency = ''EUR'',
                       checkoutReference = randomUUID env,
                       params_description = ''Chaquip payment for '' @ slack_name (slack a),
                       merchantCode = code,
                       returnUrl = functionUrl env @ ''?accountId='' @ encodeURIComponent env aid\<rparr>
                 in case createCheckout env params of
                      Inl e \<Rightarrow> (internal_error e, [params])
                    | Inr session \<Rightarrow>
                        (reply 200 (BalanceLinkJson balance (checkoutUrl session)), [params]))))"
  using assms by (simp add: getPaymentLinkForSlackUser_def Let_def)

text \<open>
  C6, as amended. For an authenticated, well-formed request whose \<open>slackUserId\<close>
  resolves to the stored account \<open>a\<close> with document id \<open>aid\<close>, with
  \<open>balance = totalPaid - totalPurchased\<close>: if \<open>balance \<ge> 0\<close> the answer is \<open>200\<close> with
  the balance alone and no checkout is created. If \<open>balance < 0\<close> and no merchant
  code is configured, the answer is \<open>500\<close> and no checkout is created. If
  \<open>balance < 0\<close> and a merchant code is configured, one checkout is asked for, for
  \<open>abs(balance)\<close> in EUR with the account id in the return URL; when the gateway
  creates it the answer is \<open>200\<close> with the balance and the checkout link, and when the
  gateway call throws the answer is \<open>500\<close>.
\<close>

theorem getPaymentLinkForSlackUser_balance:
  assumes "http_method req = ''GET''" and "CHAQUIP_API_KEY env = Some key" and "key \<noteq> []"
    and "authorization req = Some (''Bearer '' @ key)"
    and "query_slackUserId req = Some (QueryString uid)" and "uid \<noteq> []"
    and "find (\<lambda>d. slack_id (slack (snd d)) = uid) (accounts fs) = Some (aid, a)"
    and "balance = totalPaid (activity a) - totalPurchased (activity a)"
    and "params = \<lparr>params_amount = \<bar>balance\<bar>, params_currency = ''EUR'',
                    checkoutReference = randomUUID env,
                    params_description = ''Chaquip payment for '' @ slack_name (slack a),
                    merchantCode = code,
                    returnUrl = functionUrl env @ ''?accountId='' @ encodeURIComponent env aid\<rparr>"
  shows
    "(balance \<ge> 0 \<longrightarrow>
        getPaymentLinkForSlackUser env req fs = (reply 200 (BalanceJson balance), []))
     \<and> (balance < 0 \<and> \<not> truthy (SUMUP_MERCHANT_CODE env) \<longrightarrow>
        getPaymentLinkForSlackUser env req fs =
          (reply 500 (ErrorJson ''Internal server error''), []))
     \<and> (\<forall>session. balance < 0 \<and> SUMUP_MERCHANT_CODE env = Some code \<and> code \<noteq> []
            \<and> createCheckout env params = Inr session \<longrightarrow>
          getPaymentLinkForSlackUser env req fs =
            (reply 200 (BalanceLinkJson balance (checkoutUrl session)), [params]))
     \<and> (\<forall>e. balance < 0 \<and> SUMUP_MERCHANT_CODE env = Some code \<and> code \<noteq> []
            \<and> createCheckout env params = Inl e \<longrightarrow>
          getPaymentLinkForSlackUser env req fs = (internal_error e, [params]))"
  using assms(8,9)
  by (auto simp: lookup_authenticated [OF assms(1-7)] Let_def truthy_def split: option.splits)

text \<open>
  Scenario E: purchased 100 and paid 40 gives the balance \<open>-60\<close> and a payment link for
  60; purchased 40 and paid 100 gives the balance 60 and no link.
\<close>

lemma run_owing:
  "getPaymentLinkForSlackUser link0 (lookup (Some ''Bearer correct-api-key'') ''U123'') store0 =
     (reply 200 (BalanceLinkJson (- 60) ''https://pay.sumup.com/checkout-123''), [owed_params])"
  by (simp add: getPaymentLinkForSlackUser_def link0_def lookup_def store0_def
        member_account_def sumup_def functionUrl_def owed_params_def Let_def)

theorem getPaymentLinkForSlackUser_balance_witness:
  "getPaymentLinkForSlackUser link0 (lookup (Some ''Bearer correct-api-key'') ''U123'') store0 =
     (reply 200 (BalanceLinkJson (- 60) ''https://pay.sumup.com/checkout-123''), [owed_params])
   \<and> returnUrl owed_params = ''https://example.com/webhook?accountId=account-123''
   \<and> getPaymentLinkForSlackUser link0 (lookup (Some ''Bearer correct-api-key'') ''U456'')
         store_credit = (reply 200 (BalanceJson 60), [])"
proof -
  have h1: "http_method (lookup (Some ''Bearer correct-api-key'') ''U456'') = ''GET''"
    and h4: "authorization (lookup (Some ''Bearer correct-api-key'') ''U456'') =
        Some (''Bearer '' @ ''correct-api-key'')"
    and h5: "query_slackUserId (lookup (Some ''Bearer correct-api-key'') ''U456'') =
        Some (QueryString ''U456'')"
    by (simp_all add: lookup_def)
  have h2: "CHAQUIP_API_KEY link0 = Some ''correct-api-key''"
    by (simp add: link0_def)
  have h3: "''correct-api-key'' \<noteq> []" and h6: "''U456'' \<noteq> []"
    by simp_all
  have h7: "find (\<lambda>d. slack_id (slack (snd d)) = ''U456'') (accounts store_credit) =
      Some (''account-456'', member_account ''U456'' 40 100)"
    by (simp add: store_credit_def member_account_def)
  have h8: "(60::real) = totalPaid (activity (member_account ''U456'' 40 100))
      - totalPurchased (activity (member_account ''U456'' 40 100))"
    by (simp add: member_account_def)
  from getPaymentLinkForSlackUser_balance [OF h1 h2 h3 h4 h5 h6 h7 h8 refl]
  have "getPaymentLinkForSlackUser link0 (lookup (Some ''Bearer correct-api-key'') ''U456'')
         store_credit = (reply 200 (BalanceJson 60), [])"
    by simp
  with run_owing show ?thesis by (simp add: owed_params_def)
qed

text \<open>
  C6 as stated fails when \<open>SUMUP_MERCHANT_CODE\<close> is not configured: the member owes
  60, no checkout is created and the answer is \<open>500\<close>. It fails as well when the
  gateway call throws: the answer is \<open>500\<close> with the gateway's message.
\<close>

theorem getPaymentLinkForSlackUser_balance_counterexample:
  "find (\<lambda>d. slack_id (slack (snd d)) = ''U123'') (accounts store0) =
     Some (''account-123'', member_account ''U123'' 100 40)
   \<and> totalPaid (activity (member_account ''U123'' 100 40))
       - totalPurchased (activity (member_account ''U123'' 100 40)) = - 60
   \<and> getPaymentLinkForSlackUser (link0\<lparr>SUMUP_MERCHANT_CODE := None\<rparr>)
        (lookup (Some ''Bearer correct-api-key'') ''U123'') store0 =
       (reply 500 (ErrorJson ''Internal server error''), [])
   \<and> getPaymentLinkForSlackUser (link0\<lparr>createCheckout := (\<lambda>p. Inl (Error ''SumUp API error''))\<rparr>)
        (lookup (Some ''Bearer correct-api-key'') ''U123'') store0 =
       (reply 500 (ErrorDetailsJson ''Internal server error'' ''SumUp API error''),
        [owed_params])"
  by (simp add: getPaymentLinkForSlackUser_def link0_def lookup_def store0_def
        member_account_def functionUrl_def owed_params_def internal_error_def Let_def)

text \<open>The four ways out of the endpoint before the account is looked up.\<close>

lemma authenticated_not_401:
  assumes "http_method req = ''GET''" and "CHAQUIP_API_KEY env = Some key" and "key \<noteq> []"
    and "authorization req = Some (''Bearer '' @ key)"
  shows "json_status (fst (getPaymentLinkForSlackUser env req fs)) \<noteq> 401"
  using assms
  by (auto simp: getPaymentLinkForSlackUser_def reply_def internal_error_def Let_def
        split: option.splits query_value.splits sum.splits)

lemma unauthenticated_401:
  assumes "http_method req = ''GET''" and "CHAQUIP_API_KEY env = Some key" and "key \<noteq> []"
    and "authorization req \<noteq> Some (''Bearer '' @ key)"
  shows "getPaymentLinkForSlackUser env req fs = (reply 401 (ErrorJson ''Unauthorized''), [])"
proof (cases "authorization req")
  case None
  with assms show ?thesis by (simp add: getPaymentLinkForSlackUser_def)
next
  case (Some h)
  with assms(4) have "\<not> (take 7 h = ''Bearer '' \<and> drop 7 h = key)"
    by (simp only: bearer) simp
  with Some assms(1-3) show ?thesis
    by (auto simp: getPaymentLinkForSlackUser_def)
qed

lemma unconfigured_500:
  assumes "http_method req = ''GET''" and "\<not> truthy (CHAQUIP_API_KEY env)"
  shows "getPaymentLinkForSlackUser env req fs =
     (reply 500 (ErrorJson ''Internal server error''), [])"
  using assms by (auto simp: getPaymentLinkForSlackUser_def truthy_def split: option.splits)

lemma not_GET_405:
  assumes "http_method req \<noteq> ''GET''"
  shows "getPaymentLinkForSlackUser env req fs = (reply 405 (ErrorJson ''Method not allowed''), [])"
  using assms by (simp add: getPaymentLinkForSlackUser_def)

text \<open>
  C10. With \<open>CHAQUIP_API_KEY\<close> unconfigured (missing or empty) every \<open>GET\<close> request is
  answered with \<open>500\<close>, whatever its \<open>Authorization\<close> header. The answer is \<open>401\<close>
  exactly when the request is a \<open>GET\<close>, the key is configured and the header is not
  \<open>Bearer\<close> followed by the key.
\<close>

theorem getPaymentLinkForSlackUser_key_first:
  "(http_method req = ''GET'' \<and> \<not> truthy (CHAQUIP_API_KEY env) \<longrightarrow>
      getPaymentLinkForSlackUser env req fs =
        (reply 500 (ErrorJson ''Internal server error''), []))
   \<and> (json_status (fst (getPaymentLinkForSlackUser env req fs)) = 401 \<longleftrightarrow>
        http_method req = ''GET''
        \<and> (\<exists>key. CHAQUIP_API_KEY env = Some key \<and> key \<noteq> []
              \<and> authorization req \<noteq> Some (''Bearer '' @ key)))"
proof -
  have sts: "json_status (reply n b) = n" for n b
    by (simp add: reply_def)
  have l2r: "http_method req = ''GET''
        \<and> (\<exists>key. CHAQUIP_API_KEY env = Some key \<and> key \<noteq> []
              \<and> authorization req \<noteq> Some (''Bearer '' @ key))"
    if st: "json_status (fst (getPaymentLinkForSlackUser env req fs)) = 401"
  proof -
    have get: "http_method req = ''GET''"
    proof (rule ccontr)
      assume "http_method req \<noteq> ''GET''"
      from not_GET_405 [OF this, of env fs] st show False by (simp add: sts)
    qed
    have conf: "truthy (CHAQUIP_API_KEY env)"
    proof (rule ccontr)
      assume "\<not> truthy (CHAQUIP_API_KEY env)"
      from unconfigured_500 [OF get this, of fs] st show False by (simp add: sts)
    qed
    then obtain key where key: "CHAQUIP_API_KEY env = Some key" "key \<noteq> []"
      by (auto simp: truthy_def split: option.splits)
    have "authorization req \<noteq> Some (''Bearer '' @ key)"
      using st authenticated_not_401 [OF get key, of fs] by blast
    with get key show ?thesis by blast
  qed
  have r2l: "json_status (fst (getPaymentLinkForSlackUser env req fs)) = 401"
    if "http_method req = ''GET''
        \<and> (\<exists>key. CHAQUIP_API_KEY env = Some key \<and> key \<noteq> []
              \<and> authorization req \<noteq> Some (''Bearer '' @ key))"
    using that unauthenticated_401 [of req env _ fs] by (auto simp: sts)
  from unconfigured_500 [of req env fs] l2r r2l show ?thesis by blast
qed

text \<open>
  Without a key, the request with no header and the one with a wrong token both get
  \<open>500\<close>; with the key configured the wrong token gets \<open>401\<close>.
\<close>

theorem getPaymentLinkForSlackUser_key_first_witness:
  "http_method (lookup None ''U123'') = ''GET''
   \<and> \<not> truthy (CHAQUIP_API_KEY (link0\<lparr>CHAQUIP_API_KEY := None\<rparr>))
   \<and> getPaymentLinkForSlackUser (link0\<lparr>CHAQUIP_API_KEY := None\<rparr>) (lookup None ''U123'')
        store0 = (reply 500 (ErrorJson ''Internal server error''), [])
   \<and> getPaymentLinkForSlackUser (link0\<lparr>CHAQUIP_API_KEY := None\<rparr>)
        (lookup (Some ''Bearer wrong-api-key'') ''U123'') store0 =
       (reply 500 (ErrorJson ''Internal server error''), [])
   \<and> json_status
        (fst (getPaymentLinkForSlackUser link0 (lookup (Some ''Bearer wrong-api-key'') ''U123'')
           store0)) = 401"
proof -
  have g: "http_method (lookup h ''U123'') = ''GET''" for h
    by (simp add: lookup_def)
  have u: "\<not> truthy (CHAQUIP_API_KEY (link0\<lparr>CHAQUIP_API_KEY := None\<rparr>))"
    by (simp add: truthy_def)
  have k: "CHAQUIP_API_KEY link0 = Some ''correct-api-key'' \<and> ''correct-api-key'' \<noteq> []
      \<and> authorization (lookup (Some ''Bearer wrong-api-key'') ''U123'')
          \<noteq> Some (''Bearer '' @ ''correct-api-key'')"
    by (simp add: link0_def lookup_def)
  note first = getPaymentLinkForSlackUser_key_first
  from first [of "lookup None ''U123''" "link0\<lparr>CHAQUIP_API_KEY := None\<rparr>" store0] g u
  have a: "getPaymentLinkForSlackUser (link0\<lparr>CHAQUIP_API_KEY := None\<rparr>) (lookup None ''U123'')
        store0 = (reply 500 (ErrorJson ''Internal server error''), [])"
    by blast
  from first [of "lookup (Some ''Bearer wrong-api-key'') ''U123''"
      "link0\<lparr>CHAQUIP_API_KEY := None\<rparr>" store0] g u
  have b: "getPaymentLinkForSlackUser (link0\<lparr>CHAQUIP_API_KEY := None\<rparr>)
        (lookup (Some ''Bearer wrong-api-key'') ''U123'') store0 =
       (reply 500 (ErrorJson ''Internal server error''), [])"
    by blast
  from first [of "lookup (Some ''Bearer wrong-api-key'') ''U123''" link0 store0] g k
  have c: "json_status
        (fst (getPaymentLinkForSlackUser link0 (lookup (Some ''Bearer wrong-api-key'') ''U123'')
           store0)) = 401"
    by blast
  from g u a b c show ?thesis by blast
qed

section \<open>Claims about the roster reconciler\<close>

text \<open>
  C7. An account with \<open>totalPurchased > 0\<close> is in no delete set, whatever the directory
  says. An account is in the delete set exactly when it is stored, no live member of
  the directory corresponds to it, and its \<open>totalPurchased\<close> is 0.
\<close>

theorem deleteSet_guard:
  "(\<forall>k a. (k, a) \<in> set stored \<and> 0 < totalPurchased (activity a) \<longrightarrow>
       (\<forall>reason. (k, a, reason) \<notin> set (deleteSet directory stored)))
   \<and> (\<forall>k a reason. (k, a, reason) \<in> set (deleteSet directory stored) \<longleftrightarrow>
         (k, a) \<in> set stored \<and> \<not> liveMember directory a \<and> totalPurchased (activity a) = 0
         \<and> reason = deleteReason directory a)"
  by (force simp: deleteSet_def image_iff)

text \<open>
  Scenarios B and C: with the member absent, the account without purchases is deleted
  and the one with purchases is kept; a member marked deleted gives the other reason.
\<close>

theorem deleteSet_guard_witness:
  "deleteSet []
     [(''account-1'', member_account ''U123'' 0 0), (''account-2'', member_account ''U456'' 100 50)]
     = [(''account-1'', member_account ''U123'' 0 0, RemovedFromDirectory)]
   \<and> deleteSet sample_directory
       [(''account-1'', member_account ''U123'' 0 0), (''account-2'', member_account ''U123'' 100 50)]
     = [(''account-1'', member_account ''U123'' 0 0, MarkedDeletedInDirectory)]
   \<and> (\<forall>reason. (''account-2'', member_account ''U456'' 100 50, reason) \<notin>
        set (deleteSet []
          [(''account-1'', member_account ''U123'' 0 0),
           (''account-2'', member_account ''U456'' 100 50)]))"
proof -
  have inl: "(''account-2'', member_account ''U456'' 100 50) \<in>
      set [(''account-1'', member_account ''U123'' 0 0),
           (''account-2'', member_account ''U456'' 100 50)]"
    by simp
  have pos: "0 < totalPurchased (activity (member_account ''U456'' 100 50))"
    by (simp add: member_account_def)
  from deleteSet_guard [of "[(''account-1'', member_account ''U123'' 0 0),
           (''account-2'', member_account ''U456'' 100 50)]" "[]"] inl pos
  have kept: "\<forall>reason. (''account-2'', member_account ''U456'' 100 50, reason) \<notin>
        set (deleteSet []
          [(''account-1'', member_account ''U123'' 0 0),
           (''account-2'', member_account ''U456'' 100 50)])"
    by blast
  have one: "deleteSet []
     [(''account-1'', member_account ''U123'' 0 0), (''account-2'', member_account ''U456'' 100 50)]
     = [(''account-1'', member_account ''U123'' 0 0, RemovedFromDirectory)]"
    by (simp add: deleteSet_def liveMember_def deleteReason_def member_account_def)
  have two: "deleteSet sample_directory
       [(''account-1'', member_account ''U123'' 0 0), (''account-2'', member_account ''U123'' 100 50)]
     = [(''account-1'', member_account ''U123'' 0 0, MarkedDeletedInDirectory)]"
    by (simp add: deleteSet_def liveMember_def deleteReason_def member_account_def
          sample_directory_def)
  from one two kept show ?thesis by blast
qed

end
